theory Spec2Isabelle
  imports Complex_Main "HOL-Library.Char_ord" "HOL-Library.List_Lexorder"
begin

section \<open>Numbers\<close>

text \<open>
  The program is JavaScript, whose numbers are IEEE 754 doubles. The backtest engine, the
  VAO indicator and the composite scorer are modelled over the type \<open>double\<close> below, with
  every operation rounded as the machine rounds it. The fundamental scorer, the filter
  stage and the max-drawdown loop taken by itself are modelled over the real numbers, with
  the two functions that follow: \<open>Math.round\<close> rounds to the nearest integer, a tie going
  up.
\<close>

definition js_round :: "real \<Rightarrow> real" where
  "js_round x = of_int \<lfloor>x + 1 / 2\<rfloor>"

text \<open>The idiom \<open>Math.round(x * 100) / 100\<close>: two decimals.\<close>

definition round2 :: "real \<Rightarrow> real" where
  "round2 x = js_round (x * 100) / 100"

section \<open>Doubles\<close>

text \<open>
  Rounding to the nearest double, a tie going to the even significand. The exponent of
  the last place of \<open>x\<close> is that of its binade less 52, and no smaller than that of the
  subnormal numbers.
\<close>

definition round_even :: "real \<Rightarrow> int" where
  "round_even y =
     (let f = \<lfloor>y\<rfloor>; d = y - of_int f
      in if d < 1 / 2 then f else if d > 1 / 2 then f + 1
         else if even f then f else f + 1)"

definition emin :: int where "emin = - 1022"

definition emax :: int where "emax = 1024"

definition ulp_exp :: "real \<Rightarrow> int" where
  "ulp_exp x = max \<lfloor>log 2 \<bar>x\<bar>\<rfloor> emin - 52"

definition rnd :: "real \<Rightarrow> real" where
  "rnd x = (if x = 0 then 0
            else of_int (round_even (x / 2 powi ulp_exp x)) * 2 powi ulp_exp x)"

text \<open>
  A double is a finite number (\<open>Fin 0\<close> is the positive zero), the negative zero, an
  infinity or NaN. \<open>to_double\<close> is the double an exact result that is not 0 rounds to: an
  infinity beyond the largest double, and the zero of its sign when it underflows.
\<close>

datatype double = Fin real | NegZero | PInf | NInf | NaN

definition to_double :: "real \<Rightarrow> double" where
  "to_double x =
     (let r = rnd x
      in if 2 powi emax \<le> r then PInf
         else if r \<le> - (2 powi emax) then NInf
         else if r = 0 \<and> x < 0 then NegZero
         else Fin r)"

fun val :: "double \<Rightarrow> real" where
  "val (Fin x) = x"
| "val d = 0"

fun is_inf :: "double \<Rightarrow> bool" where
  "is_inf PInf = True"
| "is_inf NInf = True"
| "is_inf d = False"

fun is_zero :: "double \<Rightarrow> bool" where
  "is_zero (Fin x) = (x = 0)"
| "is_zero NegZero = True"
| "is_zero d = False"

fun sign_bit :: "double \<Rightarrow> bool" where
  "sign_bit (Fin x) = (x < 0)"
| "sign_bit NegZero = True"
| "sign_bit NInf = True"
| "sign_bit d = False"

definition signed_zero :: "bool \<Rightarrow> double" where
  "signed_zero negative = (if negative then NegZero else Fin 0)"

definition signed_inf :: "bool \<Rightarrow> double" where
  "signed_inf negative = (if negative then NInf else PInf)"

text \<open>The arithmetic: unary minus, \<open>+\<close>, \<open>-\<close>, \<open>*\<close> and \<open>/\<close>.\<close>

fun fneg :: "double \<Rightarrow> double" where
  "fneg (Fin x) = (if x = 0 then NegZero else Fin (- x))"
| "fneg NegZero = Fin 0"
| "fneg PInf = NInf"
| "fneg NInf = PInf"
| "fneg NaN = NaN"

definition fadd :: "double \<Rightarrow> double \<Rightarrow> double" where
  "fadd a b =
     (if a = NaN \<or> b = NaN then NaN
      else if a = PInf then (if b = NInf then NaN else PInf)
      else if a = NInf then (if b = PInf then NaN else NInf)
      else if is_inf b then b
      else if val a + val b = 0
        then (if a = NegZero \<and> b = NegZero then NegZero else Fin 0)
      else to_double (val a + val b))"

definition fsub :: "double \<Rightarrow> double \<Rightarrow> double" where
  "fsub a b = fadd a (fneg b)"

definition fmul :: "double \<Rightarrow> double \<Rightarrow> double" where
  "fmul a b =
     (if a = NaN \<or> b = NaN then NaN
      else if is_inf a \<or> is_inf b
        then (if is_zero a \<or> is_zero b then NaN else signed_inf (sign_bit a \<noteq> sign_bit b))
      else if val a * val b = 0 then signed_zero (sign_bit a \<noteq> sign_bit b)
      else to_double (val a * val b))"

definition fdiv :: "double \<Rightarrow> double \<Rightarrow> double" where
  "fdiv a b =
     (if a = NaN \<or> b = NaN then NaN
      else if is_inf a
        then (if is_inf b then NaN else signed_inf (sign_bit a \<noteq> sign_bit b))
      else if is_inf b then signed_zero (sign_bit a \<noteq> sign_bit b)
      else if is_zero b
        then (if is_zero a then NaN else signed_inf (sign_bit a \<noteq> sign_bit b))
      else if is_zero a then signed_zero (sign_bit a \<noteq> sign_bit b)
      else to_double (val a / val b))"

text \<open>
  The comparisons \<open><\<close>, \<open><=\<close> and \<open>===\<close>; \<open>a > b\<close> is \<open>flt b a\<close> and \<open>a >= b\<close> is
  \<open>fle b a\<close>. Every comparison with NaN is false, and the two zeros are equal.
\<close>

fun rank :: "double \<Rightarrow> int" where
  "rank PInf = 1"
| "rank NInf = - 1"
| "rank d = 0"

definition flt :: "double \<Rightarrow> double \<Rightarrow> bool" where
  "flt a b = (a \<noteq> NaN \<and> b \<noteq> NaN
              \<and> (rank a < rank b \<or> rank a = rank b \<and> val a < val b))"

definition fle :: "double \<Rightarrow> double \<Rightarrow> bool" where
  "fle a b = (a \<noteq> NaN \<and> b \<noteq> NaN
              \<and> (rank a < rank b \<or> rank a = rank b \<and> val a \<le> val b))"

definition feq :: "double \<Rightarrow> double \<Rightarrow> bool" where
  "feq a b = (a \<noteq> NaN \<and> b \<noteq> NaN \<and> rank a = rank b \<and> val a = val b)"

text \<open>
  Truthiness of a number (\<open>if (x)\<close>, \<open>x || y\<close>, \<open>!x\<close>): false for the zeros and NaN. A
  field that is \<open>undefined\<close> behaves as NaN in arithmetic, comparison and truthiness, and
  the \<open>null\<close> of an empty database column as the positive zero; fields are doubles.
\<close>

definition truthy :: "double \<Rightarrow> bool" where
  "truthy d = (d \<noteq> NaN \<and> \<not> is_zero d)"

text \<open>
  \<open>Math.round\<close> (exact, a tie going up, the negative zero for \<open>-0.5 <= x < 0\<close>),
  \<open>Math.floor\<close>, \<open>Math.abs\<close>, \<open>Math.max\<close> and \<open>Math.min\<close>.
\<close>

fun Math_round :: "double \<Rightarrow> double" where
  "Math_round (Fin x) =
     (if \<lfloor>x + 1 / 2\<rfloor> = 0 \<and> x < 0 then NegZero else Fin (of_int \<lfloor>x + 1 / 2\<rfloor>))"
| "Math_round d = d"

fun Math_floor :: "double \<Rightarrow> double" where
  "Math_floor (Fin x) = Fin (of_int \<lfloor>x\<rfloor>)"
| "Math_floor d = d"

fun Math_abs :: "double \<Rightarrow> double" where
  "Math_abs (Fin x) = Fin \<bar>x\<bar>"
| "Math_abs NegZero = Fin 0"
| "Math_abs NInf = PInf"
| "Math_abs d = d"

definition Math_max :: "double \<Rightarrow> double \<Rightarrow> double" where
  "Math_max a b =
     (if a = NaN \<or> b = NaN then NaN
      else if flt a b then b else if flt b a then a
      else if a = NegZero then b else a)"


text \<open>
  A decimal literal of the source (not 0) is the double nearest to it. \<open>Math.sqrt\<close> and
  \<open>Math.pow\<close> are left to the platform: the language lets an implementation approximate
  them.
\<close>

definition dlit :: "real \<Rightarrow> double" where
  "dlit q = to_double q"


text \<open>The idiom \<open>Math.round(x * 100) / 100\<close> on doubles.\<close>

definition round2d :: "double \<Rightarrow> double" where
  "round2d x = fdiv (Math_round (fmul x (Fin 100))) (Fin 100)"

section \<open>Composite scorer (screener/three-dimensional-screener)\<close>








section \<open>Backtest engine: strategies (backtest/backtest-engine)\<close>

text \<open>
  A property read or a call that JavaScript answers with an exception is a value of
  \<open>error\<close>: reading \<open>.close\<close> of \<open>data[i]\<close> beyond the array is a \<open>TypeError\<close>, and
  \<open>BaseStrategy.shouldEntry\<close> throws by itself.
\<close>

datatype error = InsufficientData | TypeError | NotImplemented

text \<open>
  One row of \<open>daily_prices\<close>, with the columns the modelled functions read. \<open>symbol\<close>
  and \<open>high\<close> may be missing; the code tests them for truthiness.
\<close>

record bar =
  symbol :: "string option"
  date :: string
  high :: "double option"
  close :: double
  volume :: double

definition truthy_num :: "double option \<Rightarrow> bool" where
  "truthy_num v = (case v of None \<Rightarrow> False | Some x \<Rightarrow> truthy x)"

definition truthy_str :: "string option \<Rightarrow> bool" where
  "truthy_str v = (case v of None \<Rightarrow> False | Some s \<Rightarrow> s \<noteq> [])"

definition bar_at :: "bar list \<Rightarrow> nat \<Rightarrow> error + bar" where
  "bar_at data i = (if i < length data then Inr (data ! i) else Inl TypeError)"

record config =
  initialCapital :: double
  positionSize :: double
  commission :: double
  tax :: double
  slippage :: double
  riskFreeRate :: double

definition DEFAULT_CONFIG :: config where
  "DEFAULT_CONFIG = \<lparr> initialCapital = Fin 1000000, positionSize = Fin 1,
     commission = dlit 0.001425, tax = dlit 0.003, slippage = dlit 0.001,
     riskFreeRate = dlit 0.02 \<rparr>"

text \<open>
  The exit reason is a formatted string in the source; the model keeps which rule fired
  and the percentage the string prints (before \<open>toFixed(1)\<close>).
\<close>

datatype reason = NoReason | StopLoss double | TakeProfit double | TrailingStop double | ForcedClose

record exit_result =
  exit :: bool
  reason :: reason

record position =
  pos_symbol :: string
  entryDate :: string
  entryPrice :: double
  shares :: double
  cost :: double

record trade = position +
  exitDate :: "string option"
  exitPrice :: double
  pnl :: double
  returnPct :: double
  exitReason :: reason
  holdingDays :: double

text \<open>
  A strategy object: the four exit parameters of \<open>BaseStrategy\<close> and the method
  \<open>shouldEntry\<close>, which the subclasses override.
\<close>

record strategy =
  stopLoss :: double
  takeProfit :: double
  trailingStop :: double
  trailingActivation :: double
  shouldEntry :: "bar list \<Rightarrow> nat \<Rightarrow> error + bool"

record base_params =
  params_stopLoss :: "double option"
  params_takeProfit :: "double option"
  params_trailingStop :: "double option"
  params_trailingActivation :: "double option"

definition BaseStrategy :: "'a base_params_scheme \<Rightarrow> strategy" where
  "BaseStrategy params =
     \<lparr> stopLoss = (case params_stopLoss params of Some v \<Rightarrow> v | None \<Rightarrow> dlit 0.07),
       takeProfit = (case params_takeProfit params of Some v \<Rightarrow> v | None \<Rightarrow> dlit 0.15),
       trailingStop = (case params_trailingStop params of Some v \<Rightarrow> v | None \<Rightarrow> dlit 0.03),
       trailingActivation =
         (case params_trailingActivation params of Some v \<Rightarrow> v | None \<Rightarrow> dlit 0.10),
       shouldEntry = (\<lambda>priceHistory index. Inl NotImplemented) \<rparr>"

definition shouldExit :: "'a strategy_scheme \<Rightarrow> 'b position_scheme \<Rightarrow> bar \<Rightarrow> double \<Rightarrow> exit_result" where
  "shouldExit this pos currentBar highest =
     (let currentReturn = fdiv (fsub (close currentBar) (entryPrice pos)) (entryPrice pos) in
      if fle currentReturn (fneg (stopLoss this))
        then \<lparr> exit = True, reason = StopLoss (fmul currentReturn (Fin 100)) \<rparr>
      else if fle (takeProfit this) currentReturn
        then \<lparr> exit = True, reason = TakeProfit (fmul currentReturn (Fin 100)) \<rparr>
      else if flt (Fin 0) highest
              \<and> fle (trailingActivation this)
                     (fdiv (fsub highest (entryPrice pos)) (entryPrice pos))
              \<and> fle (trailingStop this) (fdiv (fsub highest (close currentBar)) highest)
        then \<lparr> exit = True,
               reason = TrailingStop
                          (fmul (fdiv (fsub highest (close currentBar)) highest) (Fin 100)) \<rparr>
      else \<lparr> exit = False, reason = NoReason \<rparr>)"

text \<open>
  \<open>_sma\<close> and \<open>_avgVolume\<close>: the loop \<open>for (i = startIndex; i < startIndex + period &&
  i < data.length; i++) sum += data[i].close\<close>, each read going through \<open>bar_at\<close>.
\<close>

function sum_loop :: "(bar \<Rightarrow> double) \<Rightarrow> bar list \<Rightarrow> nat \<Rightarrow> nat \<Rightarrow> double \<Rightarrow> error + double" where
  "sum_loop field data i stop acc =
     (if i < stop \<and> i < length data
        then (case bar_at data i of
                Inl e \<Rightarrow> Inl e
              | Inr b \<Rightarrow> sum_loop field data (Suc i) stop (fadd acc (field b)))
      else Inr acc)"
  by pat_completeness auto
termination
  by (relation "measure (\<lambda>(field, data, i, stop, acc). stop - i)") auto

declare sum_loop.simps [simp del]

definition sma :: "bar list \<Rightarrow> nat \<Rightarrow> nat \<Rightarrow> error + double" where
  "sma data startIndex period =
     (case sum_loop close data startIndex (startIndex + period) (Fin 0) of
        Inl e \<Rightarrow> Inl e
      | Inr s \<Rightarrow> Inr (fdiv s (Fin (real period))))"

definition avgVolume :: "bar list \<Rightarrow> nat \<Rightarrow> nat \<Rightarrow> error + double" where
  "avgVolume data startIndex period =
     (case sum_loop volume data startIndex (startIndex + period) (Fin 0) of
        Inl e \<Rightarrow> Inl e
      | Inr s \<Rightarrow> Inr (fdiv s (Fin (real period))))"

text \<open>Sequencing of calls that may throw.\<close>

definition bind_err :: "error + 'a \<Rightarrow> ('a \<Rightarrow> error + 'b) \<Rightarrow> error + 'b" where
  "bind_err m f = (case m of Inl e \<Rightarrow> Inl e | Inr v \<Rightarrow> f v)"

definition MACross_shouldEntry :: "nat \<Rightarrow> nat \<Rightarrow> bar list \<Rightarrow> nat \<Rightarrow> error + bool" where
  "MACross_shouldEntry shortPeriod longPeriod data index =
     (if index + longPeriod + 1 \<ge> length data then Inr False
      else
        bind_err (sma data index shortPeriod) (\<lambda>shortMA.
        bind_err (sma data index longPeriod) (\<lambda>longMA.
        bind_err (sma data (index + 1) shortPeriod) (\<lambda>prevShortMA.
        bind_err (sma data (index + 1) longPeriod) (\<lambda>prevLongMA.
          Inr (fle prevShortMA prevLongMA \<and> flt longMA shortMA))))))"

definition VAOBreakout_shouldEntry :: "double \<Rightarrow> double \<Rightarrow> bar list \<Rightarrow> nat \<Rightarrow> error + bool" where
  "VAOBreakout_shouldEntry volumeMultiple priceChangeMin data index =
     (if index + 20 \<ge> length data then Inr False
      else
        bind_err (bar_at data index) (\<lambda>today.
        bind_err (bar_at data (index + 1)) (\<lambda>yesterday.
        bind_err (avgVolume data index 5) (\<lambda>avgVol5.
          let priceChange =
                (if flt (Fin 0) (close yesterday)
                   then fmul (fdiv (fsub (close today) (close yesterday)) (close yesterday))
                             (Fin 100)
                 else Fin 0)
          in Inr (flt (fmul avgVol5 volumeMultiple) (volume today)
                  \<and> fle priceChangeMin priceChange)))))"

text \<open>
  The constructors. \<open>params.shortPeriod || 10\<close> takes the default for a missing and
  for a falsy parameter alike. Periods are natural numbers.
\<close>

record ma_params = base_params +
  params_shortPeriod :: "nat option"
  params_longPeriod :: "nat option"

record vao_params = base_params +
  params_volumeMultiple :: "double option"
  params_priceChangeMin :: "double option"

definition or_default_nat :: "nat option \<Rightarrow> nat \<Rightarrow> nat" where
  "or_default_nat v d = (case v of None \<Rightarrow> d | Some n \<Rightarrow> if n = 0 then d else n)"

definition or_default :: "double option \<Rightarrow> double \<Rightarrow> double" where
  "or_default v d = (case v of None \<Rightarrow> d | Some x \<Rightarrow> if truthy x then x else d)"

definition MACrossStrategy :: "ma_params \<Rightarrow> strategy" where
  "MACrossStrategy params =
     (BaseStrategy params)
       \<lparr> shouldEntry := MACross_shouldEntry (or_default_nat (params_shortPeriod params) 10)
                                            (or_default_nat (params_longPeriod params) 20) \<rparr>"

definition VAOBreakoutStrategy :: "vao_params \<Rightarrow> strategy" where
  "VAOBreakoutStrategy params =
     (BaseStrategy params)
       \<lparr> shouldEntry := VAOBreakout_shouldEntry (or_default (params_volumeMultiple params) (Fin 1.5))
                                                (or_default (params_priceChangeMin params) (Fin 2)) \<rparr>"

section \<open>Backtest engine: performance report\<close>

text \<open>\<open>_calculateMaxDrawdown\<close>: the loop over the curve, with its three running variables.\<close>

fun mdd_loop :: "real list \<Rightarrow> real \<Rightarrow> real \<Rightarrow> real \<Rightarrow> real \<times> real" where
  "mdd_loop [] peak maxDrawdown maxDrawdownPct = (maxDrawdown, maxDrawdownPct)"
| "mdd_loop (equity # rest) peak maxDrawdown maxDrawdownPct =
     (let peak' = (if equity > peak then equity else peak);
          drawdown = peak' - equity;
          drawdownPct = (if peak' > 0 then (drawdown / peak') * 100 else 0)
      in if drawdown > maxDrawdown then mdd_loop rest peak' drawdown drawdownPct
         else mdd_loop rest peak' maxDrawdown maxDrawdownPct)"

definition calculateMaxDrawdown :: "real list \<Rightarrow> real \<times> real" where
  "calculateMaxDrawdown equityCurve =
     (if equityCurve = [] then (0, 0)
      else mdd_loop equityCurve (hd equityCurve) 0 0)"






text \<open>
  \<open>_calculateMonthlyReturns\<close>: the months, each with the sum of the profit of its
  trades and their number, sorted by their keys. A trade with no exit date or with a
  falsy profit is skipped. \<open>exitDate.slice(0, 7)\<close> is the month; the keys are compared
  character by character, which is the order \<open>localeCompare\<close> gives to months written
  \<open>YYYY-MM\<close>.
\<close>

record monthly =
  month :: string
  month_pnl :: double
  month_trades :: nat
  month_returnPct :: double




record performance =
  totalReturn :: double
  totalReturnPct :: double
  maxDrawdown :: double
  maxDrawdownPct :: double
  winRate :: double
  sharpeRatio :: double
  totalTrades :: nat
  winCount :: nat
  loseCount :: nat
  avgWin :: double
  avgLoss :: double
  profitFactor :: double
  expectancy :: double
  monthlyReturns :: "monthly list"
  report_equityCurve :: "double list"


section \<open>Backtest engine: simulation\<close>

text \<open>
  The loop's variables. \<open>date_ms\<close> stands for \<open>new Date(s)\<close> read as milliseconds (NaN
  for a string that is no date), which \<open>_daysBetween\<close> subtracts.
\<close>

record sim_state =
  capital :: double
  position :: "position option"
  highestSinceEntry :: double
  trades :: "trade list"
  equityCurve :: "double list"

definition daysBetween :: "(string \<Rightarrow> double) \<Rightarrow> string \<Rightarrow> string \<Rightarrow> double" where
  "daysBetween date_ms dateStr1 dateStr2 =
     Math_round (fdiv (Math_abs (fsub (date_ms dateStr2) (date_ms dateStr1))) (Fin 86400000))"

definition record_equity :: "bar \<Rightarrow> sim_state \<Rightarrow> sim_state" where
  "record_equity b st =
     st \<lparr> equityCurve := equityCurve st @
            [Math_round (fadd (capital st)
               (case position st of Some p \<Rightarrow> fmul (shares p) (close b) | None \<Rightarrow> Fin 0))] \<rparr>"

definition close_trade ::
  "position \<Rightarrow> string \<Rightarrow> double \<Rightarrow> double \<Rightarrow> double \<Rightarrow> reason \<Rightarrow> double \<Rightarrow> trade" where
  "close_trade p d price profit pct why days =
     \<lparr> pos_symbol = pos_symbol p, entryDate = entryDate p, entryPrice = entryPrice p,
       shares = shares p, cost = cost p,
       exitDate = Some d, exitPrice = price, pnl = profit, returnPct = pct,
       exitReason = why, holdingDays = days \<rparr>"

text \<open>
  One turn of the loop of \<open>_simulate\<close>, for the bar \<open>data[i]\<close>. The two \<open>continue\<close>
  statements of the entry branch leave the turn before the equity is recorded.
\<close>

definition sim_step ::
  "config \<Rightarrow> strategy \<Rightarrow> (string \<Rightarrow> double) \<Rightarrow> bar list \<Rightarrow> sim_state \<Rightarrow> nat \<Rightarrow> error + sim_state" where
  "sim_step cfg strat date_ms data st i =
     (let b = data ! i;
          reversedIndex = length data - 1 - i;
          reversedData = rev data
      in
      case position st of
        Some p \<Rightarrow>
          (let highest = (if truthy_num (high b)
                            then Math_max (highestSinceEntry st) (the (high b))
                          else Math_max (highestSinceEntry st) (close b));
               exitResult = shouldExit strat p b highest
           in
           if exit exitResult then
             (let exitPrice' = fmul (close b) (fsub (Fin 1) (slippage cfg));
                  sellCommission = fmul (fmul exitPrice' (shares p)) (commission cfg);
                  sellTax = fmul (fmul exitPrice' (shares p)) (tax cfg);
                  proceeds = fsub (fsub (fmul exitPrice' (shares p)) sellCommission) sellTax;
                  profit = fsub proceeds (cost p);
                  pct = fmul (fdiv profit (cost p)) (Fin 100)
              in Inr (record_equity b
                   (st \<lparr> capital := fadd (capital st) proceeds,
                        position := None,
                        highestSinceEntry := Fin 0,
                        trades := trades st @
                          [close_trade p (date b) (round2d exitPrice') (Math_round profit)
                             (round2d pct) (reason exitResult)
                             (daysBetween date_ms (entryDate p) (date b))] \<rparr>)))
           else Inr (record_equity b (st \<lparr> highestSinceEntry := highest \<rparr>)))
      | None \<Rightarrow>
          (case shouldEntry strat reversedData reversedIndex of
             Inl e \<Rightarrow> Inl e
           | Inr False \<Rightarrow> Inr (record_equity b st)
           | Inr True \<Rightarrow>
               (let entryPrice' = fmul (close b) (fadd (Fin 1) (slippage cfg));
                    investAmount = fmul (capital st) (positionSize cfg);
                    shares' = fmul (Math_floor (fdiv investAmount (fmul entryPrice' (Fin 1000))))
                                   (Fin 1000)
                in
                if fle shares' (Fin 0) then Inr st
                else
                  let buyCommission = fmul (fmul entryPrice' shares') (commission cfg);
                      cost' = fadd (fmul entryPrice' shares') buyCommission
                  in
                  if flt (capital st) cost' then Inr st
                  else Inr (record_equity b
                         (st \<lparr> capital := fsub (capital st) cost',
                              highestSinceEntry :=
                                (if truthy_num (high b) then the (high b) else close b),
                              position := Some
                                \<lparr> pos_symbol =
                                    (if data \<noteq> [] \<and> truthy_str (symbol (data ! 0))
                                       then the (symbol (data ! 0)) else ''UNKNOWN''),
                                  entryDate = date b,
                                  entryPrice = round2d entryPrice',
                                  shares = shares',
                                  cost = Math_round cost' \<rparr> \<rparr>)))))"

fun sim_loop ::
  "config \<Rightarrow> strategy \<Rightarrow> (string \<Rightarrow> double) \<Rightarrow> bar list \<Rightarrow> nat list \<Rightarrow> sim_state \<Rightarrow> error + sim_state" where
  "sim_loop cfg strat date_ms data [] st = Inr st"
| "sim_loop cfg strat date_ms data (i # rest) st =
     (case sim_step cfg strat date_ms data st i of
        Inl e \<Rightarrow> Inl e
      | Inr st' \<Rightarrow> sim_loop cfg strat date_ms data rest st')"

definition sim_init :: "config \<Rightarrow> sim_state" where
  "sim_init cfg = \<lparr> capital = initialCapital cfg, position = None, highestSinceEntry = Fin 0,
                    trades = [], equityCurve = [] \<rparr>"

text \<open>The state after the first \<open>k\<close> bars.\<close>

definition sim_after ::
  "config \<Rightarrow> strategy \<Rightarrow> (string \<Rightarrow> double) \<Rightarrow> bar list \<Rightarrow> nat \<Rightarrow> error + sim_state" where
  "sim_after cfg strat date_ms data k = sim_loop cfg strat date_ms data [0 ..< k] (sim_init cfg)"

text \<open>The forced close after the loop.\<close>

definition force_close :: "config \<Rightarrow> (string \<Rightarrow> double) \<Rightarrow> bar list \<Rightarrow> sim_state \<Rightarrow> trade list" where
  "force_close cfg date_ms data st =
     (case position st of
        Some p \<Rightarrow>
          if length data > 0 then
            (let lastBar = last data;
                 exitPrice' = close lastBar;
                 proceeds = fmul (fmul exitPrice' (shares p))
                                 (fsub (fsub (Fin 1) (commission cfg)) (tax cfg));
                 profit = fsub proceeds (cost p)
             in trades st @
                  [close_trade p (date lastBar) exitPrice' (Math_round profit)
                     (fdiv (Math_round (fmul (fdiv profit (cost p)) (Fin 10000))) (Fin 100))
                     ForcedClose
                     (daysBetween date_ms (entryDate p) (date lastBar))])
          else trades st
      | None \<Rightarrow> trades st)"

definition simulate ::
  "config \<Rightarrow> strategy \<Rightarrow> (string \<Rightarrow> double) \<Rightarrow> bar list \<Rightarrow> error + (trade list \<times> double list)" where
  "simulate cfg strat date_ms data =
     (case sim_after cfg strat date_ms data (length data) of
        Inl e \<Rightarrow> Inl e
      | Inr st \<Rightarrow> Inr (force_close cfg date_ms data st, equityCurve st))"

section \<open>VAO indicator (indicators/vao)\<close>




record vao_details =
  volumeRatio5 :: "double option"
  volumeRatio20 :: "double option"
  priceChange :: double
  turnoverRate :: "double option"
  todayVolume :: double
  avgVolume5 :: double
  avgVolume20 :: double




section \<open>Fundamental scorer (screener/three-dimensional-screener)\<close>

text \<open>
  A field of the snapshot is missing (\<open>undefined\<close>), \<open>null\<close> (what a database row gives
  for an empty column) or a number.
\<close>

datatype jsval = Undefined | Null | Num real

record fundamental =
  revenueGrowthMoM :: jsval
  revenueGrowthYoY :: jsval
  eps :: jsval
  epsPrevYear :: jsval
  peRatio :: jsval

text \<open>
  \<open>v > 0\<close> is false for \<open>undefined\<close> and \<open>null\<close>. In arithmetic \<open>null\<close> counts as 0;
  \<open>undefined\<close> never reaches an arithmetic operation of \<open>scoreFundamental\<close>.
\<close>

definition js_positive :: "jsval \<Rightarrow> bool" where
  "js_positive v = (case v of Num x \<Rightarrow> x > 0 | _ \<Rightarrow> False)"

fun to_number :: "jsval \<Rightarrow> real" where
  "to_number (Num x) = x"
| "to_number Null = 0"
| "to_number Undefined = 0"

record fundamental_details =
  revenueScore :: real
  momScore :: real
  epsScore :: real
  epsGrowth :: "real option"
  peScore :: real

record fundamental_result =
  fundamental_score :: real
  fundamental_details :: "fundamental_details option"

text \<open>The four sub-scores, each with its neutral value 50 in the \<open>else\<close> branch.\<close>

definition revenue_subscore :: "jsval \<Rightarrow> real" where
  "revenue_subscore yoy =
     (if yoy \<noteq> Undefined \<and> yoy \<noteq> Null then
        (let y = to_number yoy in
         if y > 30 then 100 else if y > 15 then 80 else if y > 5 then 65
         else if y > 0 then 55 else if y > -10 then 35 else 15)
      else 50)"

definition mom_subscore :: "jsval \<Rightarrow> real" where
  "mom_subscore mom =
     (if mom \<noteq> Undefined \<and> mom \<noteq> Null then
        (let m = to_number mom in
         if m > 20 then 90 else if m > 10 then 75 else if m > 0 then 60
         else if m > -10 then 40 else 20)
      else 50)"

definition has_eps :: "jsval \<Rightarrow> jsval \<Rightarrow> bool" where
  "has_eps e epsPrev = (e \<noteq> Undefined \<and> epsPrev \<noteq> Undefined \<and> js_positive epsPrev)"

definition eps_growth :: "jsval \<Rightarrow> jsval \<Rightarrow> real" where
  "eps_growth e epsPrev = ((to_number e - to_number epsPrev) / to_number epsPrev) * 100"

definition eps_subscore :: "jsval \<Rightarrow> jsval \<Rightarrow> real" where
  "eps_subscore e epsPrev =
     (if has_eps e epsPrev then
        (let g = eps_growth e epsPrev in
         if g > 30 then 100 else if g > 15 then 80
         else if g > 0 then 65 else if g > -15 then 35 else 15)
      else 50)"

definition pe_subscore :: "jsval \<Rightarrow> real" where
  "pe_subscore pe =
     (if pe \<noteq> Undefined \<and> pe \<noteq> Null \<and> js_positive pe then
        (let p = to_number pe in
         if p < 10 then 85 else if p < 15 then 75 else if p < 20 then 60
         else if p < 30 then 45 else 25)
      else 50)"

definition scoreFundamental :: "fundamental option \<Rightarrow> fundamental_result" where
  "scoreFundamental fundamentalData =
     (case fundamentalData of
        None \<Rightarrow> \<lparr> fundamental_score = 50, fundamental_details = None \<rparr>
      | Some d \<Rightarrow>
          (let rs = revenue_subscore (revenueGrowthYoY d);
               ms = mom_subscore (revenueGrowthMoM d);
               es = eps_subscore (eps d) (epsPrevYear d);
               ps = pe_subscore (peRatio d);
               sc = rs * 0.40 + ms * 0.15 + es * 0.30 + ps * 0.15
           in \<lparr> fundamental_score = js_round (min 100 (max 0 sc)),
                fundamental_details = Some
                  \<lparr> revenueScore = rs, momScore = ms, epsScore = es,
                    epsGrowth = (if has_eps (eps d) (epsPrevYear d)
                                   then Some (round2 (eps_growth (eps d) (epsPrevYear d)))
                                 else None),
                    peScore = ps \<rparr> \<rparr>))"

section \<open>Screener: the filter stage\<close>

record screener_config =
  minAvgVolume :: real
  minPrice :: real
  topN :: nat

definition FILTER_DEFAULTS :: screener_config where
  "FILTER_DEFAULTS = \<lparr> minAvgVolume = 1000, minPrice = 10, topN = 20 \<rparr>"

record screener_overrides =
  set_minAvgVolume :: "real option"
  set_minPrice :: "real option"
  set_topN :: "nat option"

text \<open>The constructor's \<open>{ ...FILTER_DEFAULTS, ...config }\<close>.\<close>

definition screener_config_of :: "screener_overrides \<Rightarrow> screener_config" where
  "screener_config_of c =
     \<lparr> minAvgVolume = (case set_minAvgVolume c of Some v \<Rightarrow> v | None \<Rightarrow> minAvgVolume FILTER_DEFAULTS),
       minPrice = (case set_minPrice c of Some v \<Rightarrow> v | None \<Rightarrow> minPrice FILTER_DEFAULTS),
       topN = (case set_topN c of Some v \<Rightarrow> v | None \<Rightarrow> topN FILTER_DEFAULTS) \<rparr>"

record price_row =
  row_close :: real
  row_volume :: real

text \<open>
  The database is a function: the rows of \<open>daily_prices\<close> of a symbol up to a date,
  newest first, or \<open>None\<close> when the query throws. \<open>LIMIT 5\<close> is \<open>take 5\<close>. A symbol is
  a string of one-byte characters, so its length is the length of the list.
\<close>

type_synonym price_db = "string \<Rightarrow> string \<Rightarrow> price_row list option"

fun applyFilters_loop ::
  "screener_config \<Rightarrow> price_db \<Rightarrow> string \<Rightarrow> string list \<Rightarrow> string list \<Rightarrow> string list" where
  "applyFilters_loop cfg db d [] result = result"
| "applyFilters_loop cfg db d (symb # rest) result =
     (if length symb \<noteq> 4 then applyFilters_loop cfg db d rest result
      else
        case db symb d of
          None \<Rightarrow> applyFilters_loop cfg db d rest result
        | Some rows \<Rightarrow>
            (let recent = take 5 rows in
             if length recent < 5 then applyFilters_loop cfg db d rest result
             else
               let avgVol = sum_list (map row_volume recent) / real (length recent);
                   latestPrice = row_close (recent ! 0)
               in if avgVol \<ge> minAvgVolume cfg \<and> latestPrice \<ge> minPrice cfg
                    then applyFilters_loop cfg db d rest (result @ [symb])
                  else applyFilters_loop cfg db d rest result))"

definition applyFilters :: "screener_config \<Rightarrow> price_db \<Rightarrow> string list \<Rightarrow> string \<Rightarrow> string list" where
  "applyFilters cfg db symbols d = applyFilters_loop cfg db d symbols []"

section \<open>Notions used to state the properties\<close>




text \<open>
  The spec's "4-digit equity format" of a symbol code, as the words say: four characters,
  each a decimal digit.
\<close>

definition four_digit_code :: "string \<Rightarrow> bool" where
  "four_digit_code s = (length s = 4 \<and> list_all (\<lambda>c. c \<in> set ''0123456789'') s)"



text \<open>
  A small run used to instantiate the properties of the simulation: a custom strategy with
  the default exit parameters whose entry rule answers true at once, two bars with the
  closes 19.90 and 20.40, and the dates read as milliseconds. After the first bar it holds
  \<open>example_position\<close>.
\<close>

definition example_strategy :: strategy where
  "example_strategy =
     (BaseStrategy \<lparr> params_stopLoss = None, params_takeProfit = None,
                      params_trailingStop = None, params_trailingActivation = None \<rparr>)
       \<lparr> shouldEntry := (\<lambda>priceHistory index. Inr True) \<rparr>"

definition example_bars :: "bar list" where
  "example_bars =
     [\<lparr> symbol = Some ''2330'', date = ''2025-01-02'', high = None, close = dlit 19.90,
        volume = Fin 1000 \<rparr>,
      \<lparr> symbol = Some ''2330'', date = ''2025-01-03'', high = None, close = dlit 20.40,
        volume = Fin 1000 \<rparr>]"

definition example_date_ms :: "string \<Rightarrow> double" where
  "example_date_ms s =
     (if s = ''2025-01-02'' then Fin 1735776000000
      else if s = ''2025-01-03'' then Fin 1735862400000 else NaN)"

definition example_position :: position where
  "example_position = \<lparr> pos_symbol = ''2330'', entryDate = ''2025-01-02'',
                        entryPrice = Fin (1401745384019067 / 70368744177664),
                        shares = Fin 50000, cost = Fin 997414 \<rparr>"

text \<open>
  A series whose last bar has the close 0, which the crawler stores for a day with no
  quoted price, and the moving-average-cross strategy with the periods 2 and 3, whose
  entry rule fires on that last bar.
\<close>

definition zero_close_strategy :: strategy where
  "zero_close_strategy =
     MACrossStrategy \<lparr> params_stopLoss = None, params_takeProfit = None,
                        params_trailingStop = None, params_trailingActivation = None,
                        params_shortPeriod = Some 2, params_longPeriod = Some 3 \<rparr>"

definition zero_close_bars :: "bar list" where
  "zero_close_bars =
     [\<lparr> symbol = Some ''2330'', date = ''2025-01-02'', high = None, close = Fin 100,
        volume = Fin 1000 \<rparr>,
      \<lparr> symbol = Some ''2330'', date = ''2025-01-03'', high = None, close = Fin 120,
        volume = Fin 1000 \<rparr>,
      \<lparr> symbol = Some ''2330'', date = ''2025-01-06'', high = None, close = Fin 10,
        volume = Fin 1000 \<rparr>,
      \<lparr> symbol = Some ''2330'', date = ''2025-01-07'', high = None, close = Fin 50,
        volume = Fin 1000 \<rparr>,
      \<lparr> symbol = Some ''2330'', date = ''2025-01-08'', high = None, close = Fin 0,
        volume = Fin 0 \<rparr>]"

definition flat_state :: "double list \<Rightarrow> sim_state" where
  "flat_state curve = \<lparr> capital = Fin 1000000, position = None, highestSinceEntry = Fin 0,
                        trades = [], equityCurve = curve \<rparr>"







section \<open>Verified properties: rounding\<close>

lemma round_even_cases: "round_even y = \<lfloor>y\<rfloor> \<or> round_even y = \<lfloor>y\<rfloor> + 1"
  unfolding round_even_def Let_def by simp

lemma round_even_of_int [simp]: "round_even (of_int n) = n"
  by (simp add: round_even_def)

lemma round_even_mono: "y \<le> z \<Longrightarrow> round_even y \<le> round_even z"
proof -
  assume yz: "y \<le> z"
  have fl: "\<lfloor>y\<rfloor> \<le> \<lfloor>z\<rfloor>" using yz by (rule floor_mono)
  show ?thesis
  proof (cases "\<lfloor>y\<rfloor> < \<lfloor>z\<rfloor>")
    case True
    have "round_even y \<le> \<lfloor>y\<rfloor> + 1" using round_even_cases [of y] by linarith
    also have "\<dots> \<le> \<lfloor>z\<rfloor>" using True by simp
    also have "\<dots> \<le> round_even z" using round_even_cases [of z] by linarith
    finally show ?thesis .
  next
    case False
    with fl have eq: "\<lfloor>y\<rfloor> = \<lfloor>z\<rfloor>" by simp
    have "y - of_int \<lfloor>z\<rfloor> \<le> z - of_int \<lfloor>z\<rfloor>" using yz by simp
    then show ?thesis unfolding round_even_def Let_def eq by simp
  qed
qed

lemma round_even_minus: "round_even (- y) = - round_even y"
proof (cases "y = of_int \<lfloor>y\<rfloor>")
  case True
  have "round_even (- of_int \<lfloor>y\<rfloor>) = round_even (of_int (- \<lfloor>y\<rfloor>))" by simp
  also have "\<dots> = - \<lfloor>y\<rfloor>" by (rule round_even_of_int)
  also have "\<dots> = - round_even (of_int \<lfloor>y\<rfloor>)" by simp
  finally show ?thesis using True by simp
next
  case False
  have lt: "of_int \<lfloor>y\<rfloor> < y" using False of_int_floor_le [of y] by linarith
  have "\<lfloor>- y\<rfloor> = - \<lceil>y\<rceil>" by (simp add: ceiling_def)
  also have "\<lceil>y\<rceil> = \<lfloor>y\<rfloor> + 1"
  proof (rule ceiling_unique)
    show "of_int (\<lfloor>y\<rfloor> + 1) - 1 < y" using lt by simp
    show "y \<le> of_int (\<lfloor>y\<rfloor> + 1)" by linarith
  qed
  finally have fl: "\<lfloor>- y\<rfloor> = - \<lfloor>y\<rfloor> - 1" by simp
  define d where "d = y - of_int \<lfloor>y\<rfloor>"
  have d: "0 < d" using lt by (simp add: d_def)
  have dm: "- y - of_int (- \<lfloor>y\<rfloor> - 1) = 1 - d" by (simp add: d_def)
  have ev: "even (- \<lfloor>y\<rfloor> - 1) \<longleftrightarrow> odd \<lfloor>y\<rfloor>" by simp
  show ?thesis
    unfolding round_even_def Let_def fl dm ev d_def [symmetric]
    using d by (simp add: field_simps) 
qed

lemma pow2_powr: "2 powr real_of_int e = (2::real) powi e"
  by (rule powr_real_of_int') simp_all

lemma binade_floor_log:
  assumes "x \<noteq> 0"
  shows "2 powi \<lfloor>log 2 \<bar>x\<bar>\<rfloor> \<le> \<bar>x\<bar> \<and> \<bar>x\<bar> < 2 powi (\<lfloor>log 2 \<bar>x\<bar>\<rfloor> + 1)"
proof -
  have pos: "0 < \<bar>x\<bar>" using assms by simp
  have "2 powr real_of_int \<lfloor>log 2 \<bar>x\<bar>\<rfloor> \<le> \<bar>x\<bar>
      \<and> \<bar>x\<bar> < 2 powr (real_of_int \<lfloor>log 2 \<bar>x\<bar>\<rfloor> + 1)"
    using floor_log_eq_powr_iff [of "\<bar>x\<bar>" 2 "\<lfloor>log 2 \<bar>x\<bar>\<rfloor>"] pos by simp
  moreover have "real_of_int \<lfloor>log 2 \<bar>x\<bar>\<rfloor> + 1 = real_of_int (\<lfloor>log 2 \<bar>x\<bar>\<rfloor> + 1)" by simp
  ultimately show ?thesis by (simp only: pow2_powr)
qed

lemma floor_log_unique:
  assumes "2 powi e \<le> \<bar>x\<bar>" "\<bar>x\<bar> < 2 powi (e + 1)"
  shows "\<lfloor>log 2 \<bar>x\<bar>\<rfloor> = e"
proof -
  have "(0::real) < 2 powi e" by simp
  with assms(1) have pos: "0 < \<bar>x\<bar>" by linarith
  have "real_of_int e + 1 = real_of_int (e + 1)" by simp
  then have "(2::real) powr real_of_int e \<le> \<bar>x\<bar> \<and> \<bar>x\<bar> < (2::real) powr (real_of_int e + 1)"
    using assms by (simp only: pow2_powr)
  then show ?thesis using pos floor_log_eq_powr_iff [of "\<bar>x\<bar>" 2 e] by simp
qed

lemma ulp_exp_normal:
  assumes "2 powi e \<le> \<bar>x\<bar>" "\<bar>x\<bar> < 2 powi (e + 1)" "emin \<le> e"
  shows "ulp_exp x = e - 52"
  using floor_log_unique [OF assms(1,2)] assms(3) by (simp add: ulp_exp_def)

lemma ulp_exp_subnormal:
  assumes "x \<noteq> 0" "\<bar>x\<bar> < 2 powi emin"
  shows "ulp_exp x = emin - 52"
proof -
  have "\<lfloor>log 2 \<bar>x\<bar>\<rfloor> < emin"
  proof (rule ccontr)
    assume "\<not> \<lfloor>log 2 \<bar>x\<bar>\<rfloor> < emin"
    then have "(2::real) powi emin \<le> 2 powi \<lfloor>log 2 \<bar>x\<bar>\<rfloor>"
      by (intro power_int_increasing) simp_all
    with binade_floor_log [OF assms(1)] assms(2) show False by linarith
  qed
  then show ?thesis by (simp add: ulp_exp_def)
qed

lemma ulp_exp_minus [simp]: "ulp_exp (- x) = ulp_exp x"
  by (simp add: ulp_exp_def)

lemma rnd_minus: "rnd (- x) = - rnd x"
  by (simp add: rnd_def round_even_minus)

lemma rnd_zero [simp]: "rnd 0 = 0"
  by (simp add: rnd_def)

text \<open>A value on the grid of its own binade is its own rounding.\<close>

lemma rnd_exact:
  assumes "x / 2 powi ulp_exp x = of_int n"
  shows "rnd x = x"
proof (cases "x = 0")
  case True
  then show ?thesis by simp
next
  case False
  have "rnd x = of_int n * 2 powi ulp_exp x" using False assms by (simp add: rnd_def)
  also have "\<dots> = x" using assms by (simp add: field_simps)
  finally show ?thesis .
qed

lemma rnd_nonneg: "0 \<le> x \<Longrightarrow> 0 \<le> rnd x"
proof -
  assume "0 \<le> x"
  then have "0 \<le> x / 2 powi ulp_exp x" by simp
  then have "round_even (of_int 0) \<le> round_even (x / 2 powi ulp_exp x)"
    by (intro round_even_mono) simp
  then have "0 \<le> round_even (x / 2 powi ulp_exp x)" by (simp add: round_even_def)
  then show ?thesis by (simp add: rnd_def)
qed

text \<open>The rounding of a positive number stays within the closed binade of the number.\<close>

lemma rnd_binade:
  assumes "0 < x" and e: "e = max \<lfloor>log 2 x\<rfloor> emin"
  shows "rnd x \<le> 2 powi (e + 1)" and "emin \<le> \<lfloor>log 2 x\<rfloor> \<Longrightarrow> 2 powi e \<le> rnd x"
proof -
  have u: "ulp_exp x = e - 52" using assms by (simp add: ulp_exp_def)
  have bin: "2 powi \<lfloor>log 2 x\<rfloor> \<le> x" "x < 2 powi (\<lfloor>log 2 x\<rfloor> + 1)"
    using binade_floor_log [of x] assms(1) by simp_all
  have "(2::real) powi (\<lfloor>log 2 x\<rfloor> + 1) \<le> 2 powi (e + 1)"
    unfolding e by (intro power_int_increasing) simp_all
  with bin(2) have up: "x \<le> 2 powi (e + 1)" by linarith
  have split1: "(2::real) powi (e + 1) = of_int (2 ^ 53) * 2 powi (e - 52)"
  proof -
    have "(2::real) powi (e + 1) = 2 powi (53 + (e - 52))"
      by (rule arg_cong [where f = "\<lambda>k. 2 powi k"]) simp
    also have "\<dots> = 2 powi 53 * 2 powi (e - 52)" by (subst power_int_add) simp_all
    finally show ?thesis by simp
  qed
  have "x / 2 powi (e - 52) \<le> of_int (2 ^ 53)"
    using up unfolding split1 by (simp add: field_simps)
  then have "round_even (x / 2 powi (e - 52)) \<le> round_even (of_int (2 ^ 53))"
    by (rule round_even_mono)
  then have "real_of_int (round_even (x / 2 powi (e - 52))) \<le> of_int (2 ^ 53)"
    by (simp only: round_even_of_int of_int_le_iff)
  then have "real_of_int (round_even (x / 2 powi (e - 52))) * 2 powi (e - 52)
               \<le> of_int (2 ^ 53) * 2 powi (e - 52)"
    by (intro mult_right_mono) simp_all
  then show "rnd x \<le> 2 powi (e + 1)"
    using assms(1) unfolding split1 by (simp add: rnd_def u)
  assume normal: "emin \<le> \<lfloor>log 2 x\<rfloor>"
  then have ee: "e = \<lfloor>log 2 x\<rfloor>" unfolding e by simp
  have split0: "(2::real) powi e = of_int (2 ^ 52) * 2 powi (e - 52)"
  proof -
    have "(2::real) powi e = 2 powi (52 + (e - 52))"
      by (rule arg_cong [where f = "\<lambda>k. 2 powi k"]) simp
    also have "\<dots> = 2 powi 52 * 2 powi (e - 52)" by (subst power_int_add) simp_all
    finally show ?thesis by simp
  qed
  have "of_int (2 ^ 52) \<le> x / 2 powi (e - 52)"
    using bin(1) unfolding ee [symmetric] split0 by (simp add: field_simps)
  then have "round_even (of_int (2 ^ 52)) \<le> round_even (x / 2 powi (e - 52))"
    by (rule round_even_mono)
  then have "of_int (2 ^ 52) \<le> real_of_int (round_even (x / 2 powi (e - 52)))"
    by (simp only: round_even_of_int of_int_le_iff)
  then have "of_int (2 ^ 52) * 2 powi (e - 52)
               \<le> real_of_int (round_even (x / 2 powi (e - 52))) * 2 powi (e - 52)"
    by (intro mult_right_mono) simp_all
  then show "2 powi e \<le> rnd x"
    using assms(1) unfolding split0 by (simp add: rnd_def u)
qed

lemma rnd_mono_pos:
  assumes "0 < x" "x \<le> y"
  shows "rnd x \<le> rnd y"
proof -
  have ypos: "0 < y" using assms by simp
  define ex where "ex = max \<lfloor>log 2 x\<rfloor> emin"
  define ey where "ey = max \<lfloor>log 2 y\<rfloor> emin"
  have "log 2 x \<le> log 2 y" using assms by simp
  then have "\<lfloor>log 2 x\<rfloor> \<le> \<lfloor>log 2 y\<rfloor>" by (rule floor_mono)
  then have le: "ex \<le> ey" by (simp add: ex_def ey_def)
  have ux: "ulp_exp x = ex - 52" and uy: "ulp_exp y = ey - 52"
    using assms(1) ypos by (simp_all add: ulp_exp_def ex_def ey_def)
  show ?thesis
  proof (cases "ex = ey")
    case True
    have "x / 2 powi (ey - 52) \<le> y / 2 powi (ey - 52)"
      using assms(2) by (intro divide_right_mono) simp_all
    then have "round_even (x / 2 powi (ey - 52)) \<le> round_even (y / 2 powi (ey - 52))"
      by (rule round_even_mono)
    then have "real_of_int (round_even (x / 2 powi (ey - 52))) * 2 powi (ey - 52)
                 \<le> real_of_int (round_even (y / 2 powi (ey - 52))) * 2 powi (ey - 52)"
      by (intro mult_right_mono) simp_all
    then show ?thesis using assms(1) ypos by (simp add: rnd_def ux uy True)
  next
    case False
    with le have lt: "ex < ey" by simp
    then have "emin < ey" by (simp add: ex_def)
    then have normal: "emin \<le> \<lfloor>log 2 y\<rfloor>" by (simp add: ey_def max_def split: if_splits)
    have "rnd x \<le> 2 powi (ex + 1)" using rnd_binade(1) [OF assms(1) ex_def] .
    also have "\<dots> \<le> 2 powi ey" using lt by (intro power_int_increasing) simp_all
    also have "\<dots> \<le> rnd y" using rnd_binade(2) [OF ypos ey_def normal] .
    finally show ?thesis .
  qed
qed

lemma rnd_mono: "x \<le> y \<Longrightarrow> rnd x \<le> rnd y"
proof -
  assume xy: "x \<le> y"
  consider "0 < x" | "x \<le> 0" "0 \<le> y" | "y < 0" by linarith
  then show ?thesis
  proof cases
    case 1
    then show ?thesis using xy by (rule rnd_mono_pos)
  next
    case 2
    have "0 \<le> rnd (- x)" using 2(1) by (intro rnd_nonneg) simp
    then have "rnd x \<le> 0" by (simp add: rnd_minus)
    also have "0 \<le> rnd y" using 2(2) by (rule rnd_nonneg)
    finally show ?thesis .
  next
    case 3
    then have "0 < - y" "- y \<le> - x" using xy by simp_all
    then have "rnd (- y) \<le> rnd (- x)" by (rule rnd_mono_pos)
    then show ?thesis by (simp add: rnd_minus)
  qed
qed

lemma rnd_eval:
  assumes "2 powi e \<le> \<bar>x\<bar>" "\<bar>x\<bar> < 2 powi (e + 1)" "emin \<le> e"
  shows "rnd x = of_int (round_even (x / 2 powi (e - 52))) * 2 powi (e - 52)"
proof -
  have "(0::real) < 2 powi e" by simp
  with assms(1) have "0 < \<bar>x\<bar>" by linarith
  then have "x \<noteq> 0" by simp
  then show ?thesis by (simp add: rnd_def ulp_exp_normal [OF assms])
qed

lemma rnd_dyadic:
  assumes x: "x = of_int m * 2 powi k" and m: "\<bar>m\<bar> < 2 ^ 53" and k: "emin - 52 \<le> k"
  shows "rnd x = x"
proof (cases "x = 0")
  case True
  then show ?thesis by simp
next
  case False
  have "\<bar>x\<bar> = of_int \<bar>m\<bar> * 2 powi k" by (simp add: x abs_mult)
  also have "\<dots> < of_int (2 ^ 53) * 2 powi k"
    using m by (intro mult_strict_right_mono) (simp_all only: of_int_less_iff zero_less_power_int zero_less_numeral)
  also have "\<dots> = 2 powi (53 + k)" by (subst power_int_add) simp_all
  finally have up: "\<bar>x\<bar> < 2 powi (53 + k)" .
  have "\<lfloor>log 2 \<bar>x\<bar>\<rfloor> < 53 + k"
  proof (rule ccontr)
    assume "\<not> \<lfloor>log 2 \<bar>x\<bar>\<rfloor> < 53 + k"
    then have "(2::real) powi (53 + k) \<le> 2 powi \<lfloor>log 2 \<bar>x\<bar>\<rfloor>"
      by (intro power_int_increasing) simp_all
    with binade_floor_log [OF False] up show False by linarith
  qed
  with k have ue: "ulp_exp x \<le> k" by (simp add: ulp_exp_def)
  define j where "j = nat (k - ulp_exp x)"
  have kj: "k = int j + ulp_exp x" using ue by (simp add: j_def)
  have pk: "(2::real) powi k = 2 ^ j * 2 powi ulp_exp x"
    by (subst kj, subst power_int_add) simp_all
  have "x / 2 powi ulp_exp x = of_int m * 2 powi k / 2 powi ulp_exp x" by (simp add: x)
  also have "\<dots> = of_int m * (2 ^ j * 2 powi ulp_exp x) / 2 powi ulp_exp x"
    by (simp only: pk)
  also have "\<dots> = of_int m * 2 ^ j" by simp
  also have "\<dots> = of_int (m * 2 ^ j)" by simp
  finally show ?thesis by (rule rnd_exact)
qed

lemma rnd_of_int: "\<bar>n\<bar> < 2 ^ 53 \<Longrightarrow> rnd (of_int n) = of_int n"
  using rnd_dyadic [of "of_int n" n 0] by (simp add: emin_def)

lemma not_huge:
  fixes r :: real
  assumes "\<bar>r\<bar> \<le> 2 ^ 53"
  shows "\<not> 2 powi emax \<le> r" and "\<not> r \<le> - (2 powi emax)"
proof -
  have "(2::real) ^ 53 = 2 powi 53" by simp
  also have "\<dots> < 2 powi emax" by (intro power_int_strict_increasing) (simp_all add: emax_def)
  finally have "(2::real) ^ 53 < 2 powi emax" .
  with assms show "\<not> 2 powi emax \<le> r" and "\<not> r \<le> - (2 powi emax)" by linarith+
qed

lemma to_double_Fin:
  assumes "rnd x = r" and "\<bar>r\<bar> \<le> 2 ^ 53" and "r \<noteq> 0 \<or> 0 \<le> x"
  shows "to_double x = Fin r"
  using assms not_huge [OF assms(2)] by (auto simp: to_double_def Let_def)


section \<open>Verified properties: arithmetic of doubles\<close>

lemma to_double_small:
  "\<bar>rnd x\<bar> \<le> 2 ^ 53 \<Longrightarrow> rnd x \<noteq> 0 \<or> 0 \<le> x \<Longrightarrow> to_double x = Fin (rnd x)"
  by (rule to_double_Fin) simp_all

lemma rnd_numeral: "numeral k < (2::int) ^ 53 \<Longrightarrow> rnd (numeral k) = numeral k"
  using rnd_of_int [of "numeral k"] by simp

lemma rnd_neg_numeral: "numeral k < (2::int) ^ 53 \<Longrightarrow> rnd (- numeral k) = - numeral k"
  using rnd_of_int [of "- numeral k"] by simp

lemma rnd_one: "rnd 1 = 1"
  using rnd_of_int [of 1] by simp

lemma rnd_half: "rnd (1 / 2) = 1 / 2"
  using rnd_dyadic [of "1 / 2" 1 "- 1"] by (simp add: emin_def)

lemma rnd_numeral_half: "numeral k < (2::int) ^ 53 \<Longrightarrow> rnd (numeral k / 2) = numeral k / 2"
  using rnd_dyadic [of "numeral k / 2" "numeral k" "- 1"] by (simp add: emin_def)

lemma fadd_Fin: "fadd (Fin a) (Fin b) = (if a + b = 0 then Fin 0 else to_double (a + b))"
  by (simp add: fadd_def)

lemma fsub_Fin: "fsub (Fin a) (Fin b) = (if a - b = 0 then Fin 0 else to_double (a - b))"
  by (simp add: fsub_def fadd_def)

lemma fmul_Fin:
  "fmul (Fin a) (Fin b) =
     (if a * b = 0 then signed_zero ((a < 0) \<noteq> (b < 0)) else to_double (a * b))"
  by (simp add: fmul_def)

lemma fdiv_Fin:
  "fdiv (Fin a) (Fin b) =
     (if b = 0 then (if a = 0 then NaN else signed_inf (a < 0))
      else if a = 0 then signed_zero (b < 0) else to_double (a / b))"
  by (simp add: fdiv_def)

lemma flt_Fin: "flt (Fin a) (Fin b) = (a < b)"
  by (simp add: flt_def)

lemma fle_Fin: "fle (Fin a) (Fin b) = (a \<le> b)"
  by (simp add: fle_def)

lemma feq_Fin: "feq (Fin a) (Fin b) = (a = b)"
  by (simp add: feq_def)

lemma nan_simps:
  "fmul NaN x = NaN" "fmul x NaN = NaN" "fadd NaN x = NaN" "fadd x NaN = NaN"
  "fsub NaN x = NaN" "fsub x NaN = NaN" "fdiv NaN x = NaN" "fdiv x NaN = NaN"
  "\<not> flt NaN x" "\<not> flt x NaN" "\<not> fle NaN x" "\<not> fle x NaN" "\<not> feq NaN x" "\<not> feq x NaN"
  "Math_round NaN = NaN"
  by (simp_all add: fmul_def fadd_def fsub_def fdiv_def flt_def fle_def feq_def)


lemmas double_eval =
  fadd_Fin fsub_Fin fmul_Fin fdiv_Fin flt_Fin fle_Fin feq_Fin to_double_small
  rnd_numeral rnd_neg_numeral rnd_one rnd_half rnd_numeral_half rnd_minus
  signed_zero_def signed_inf_def










section \<open>Verified properties: composite scorer\<close>


























section \<open>Verified properties: strategy rules\<close>



lemma sum_loop_returns: "\<exists>v. sum_loop field data i stop acc = Inr v"
proof (induction field data i stop acc rule: sum_loop.induct)
  case (1 field data i stop acc)
  show ?case
  proof (cases "i < stop \<and> i < length data")
    case True
    then have "bar_at data i = Inr (data ! i)" by (simp add: bar_at_def)
    with True 1 show ?thesis by (subst sum_loop.simps) auto
  next
    case False
    then show ?thesis by (subst sum_loop.simps) auto
  qed
qed

lemma sma_returns: "\<exists>v. sma data i p = Inr v"
  using sum_loop_returns [of close data i "i + p" "Fin 0"] by (auto simp: sma_def)

lemma avgVolume_returns: "\<exists>v. avgVolume data i p = Inr v"
  using sum_loop_returns [of volume data i "i + p" "Fin 0"] by (auto simp: avgVolume_def)

lemma MACross_never_raises: "MACross_shouldEntry sp lp data index \<noteq> Inl e"
proof -
  obtain a where a: "sma data index sp = Inr a" using sma_returns by blast
  obtain b where b: "sma data index lp = Inr b" using sma_returns by blast
  obtain c where c: "sma data (Suc index) sp = Inr c" using sma_returns by blast
  obtain d where d: "sma data (Suc index) lp = Inr d" using sma_returns by blast
  show ?thesis by (simp add: MACross_shouldEntry_def bind_err_def a b c d)
qed

lemma VAOBreakout_never_raises: "VAOBreakout_shouldEntry vm pm data index \<noteq> Inl e"
proof (cases "index + 20 \<ge> length data")
  case True
  then show ?thesis by (simp add: VAOBreakout_shouldEntry_def)
next
  case False
  then have t: "bar_at data index = Inr (data ! index)"
    and y: "bar_at data (Suc index) = Inr (data ! Suc index)"
    by (simp_all add: bar_at_def)
  obtain a where a: "avgVolume data index 5 = Inr a" using avgVolume_returns by blast
  show ?thesis using False by (simp add: VAOBreakout_shouldEntry_def bind_err_def t y a Let_def)
qed

text \<open>
  C9. The series is newest first, so the bars before the bar at \<open>index\<close> are the
  \<open>length data - 1 - index\<close> bars behind it. With fewer than \<open>longPeriod + 1\<close> of them
  the moving-average-cross entry rule answers false, and with fewer than 20 the
  volume-breakout rule answers false; and neither rule ever throws, on any series and
  index: no read of the series is out of range.
\<close>

theorem shouldEntry_short_series:
  "(length data - 1 - index < or_default_nat (params_longPeriod mp) 20 + 1
      \<longrightarrow> shouldEntry (MACrossStrategy mp) data index = Inr False)
   \<and> (\<forall>e. shouldEntry (MACrossStrategy mp) data index \<noteq> Inl e)
   \<and> (length data - 1 - index < 20
      \<longrightarrow> shouldEntry (VAOBreakoutStrategy vp) data index = Inr False)
   \<and> (\<forall>e. shouldEntry (VAOBreakoutStrategy vp) data index \<noteq> Inl e)"
proof -
  have ma: "shouldEntry (MACrossStrategy mp) =
              MACross_shouldEntry (or_default_nat (params_shortPeriod mp) 10)
                                  (or_default_nat (params_longPeriod mp) 20)"
    by (simp add: MACrossStrategy_def)
  have vao: "shouldEntry (VAOBreakoutStrategy vp) =
              VAOBreakout_shouldEntry (or_default (params_volumeMultiple vp) (Fin 1.5))
                                      (or_default (params_priceChangeMin vp) (Fin 2))"
    by (simp add: VAOBreakoutStrategy_def)
  have 1: "length data - 1 - index < or_default_nat (params_longPeriod mp) 20 + 1
      \<longrightarrow> shouldEntry (MACrossStrategy mp) data index = Inr False"
    unfolding ma by (auto simp: MACross_shouldEntry_def)
  have 2: "\<forall>e. shouldEntry (MACrossStrategy mp) data index \<noteq> Inl e"
    unfolding ma using MACross_never_raises by blast
  have 3: "length data - 1 - index < 20
      \<longrightarrow> shouldEntry (VAOBreakoutStrategy vp) data index = Inr False"
    unfolding vao by (auto simp: VAOBreakout_shouldEntry_def)
  have 4: "\<forall>e. shouldEntry (VAOBreakoutStrategy vp) data index \<noteq> Inl e"
    unfolding vao using VAOBreakout_never_raises by blast
  from 1 2 3 4 show ?thesis by blast
qed

theorem shouldEntry_short_series_witness:
  "shouldEntry (MACrossStrategy \<lparr> params_stopLoss = None, params_takeProfit = None,
        params_trailingStop = None, params_trailingActivation = None,
        params_shortPeriod = Some 5, params_longPeriod = None \<rparr>)
     [\<lparr> symbol = None, date = ''2025-01-03'', high = None, close = Fin 101, volume = Fin 9000 \<rparr>,
      \<lparr> symbol = None, date = ''2025-01-02'', high = None, close = Fin 100, volume = Fin 1000 \<rparr>] 0
     = Inr False
   \<and> shouldEntry (VAOBreakoutStrategy \<lparr> params_stopLoss = None, params_takeProfit = None,
        params_trailingStop = None, params_trailingActivation = None,
        params_volumeMultiple = None, params_priceChangeMin = None \<rparr>)
     [\<lparr> symbol = None, date = ''2025-01-03'', high = None, close = Fin 101, volume = Fin 9000 \<rparr>,
      \<lparr> symbol = None, date = ''2025-01-02'', high = None, close = Fin 100, volume = Fin 1000 \<rparr>] 0
     = Inr False"
  using shouldEntry_short_series [of
    "[\<lparr> symbol = None, date = ''2025-01-03'', high = None, close = Fin 101, volume = Fin 9000 \<rparr>,
      \<lparr> symbol = None, date = ''2025-01-02'', high = None, close = Fin 100, volume = Fin 1000 \<rparr>]"
    0
    "\<lparr> params_stopLoss = None, params_takeProfit = None,
        params_trailingStop = None, params_trailingActivation = None,
        params_shortPeriod = Some 5, params_longPeriod = None \<rparr>"
    "\<lparr> params_stopLoss = None, params_takeProfit = None,
        params_trailingStop = None, params_trailingActivation = None,
        params_volumeMultiple = None, params_priceChangeMin = None \<rparr>"]
  by (simp add: or_default_nat_def)


section \<open>Verified properties: simulation\<close>

lemma sim_loop_append:
  "sim_loop cfg strat date_ms data (xs @ ys) st =
     (case sim_loop cfg strat date_ms data xs st of
        Inl e \<Rightarrow> Inl e
      | Inr st' \<Rightarrow> sim_loop cfg strat date_ms data ys st')"
  by (induction xs arbitrary: st) (auto split: sum.splits)

lemma sim_after_Suc:
  "sim_after cfg strat date_ms data (Suc k) =
     (case sim_after cfg strat date_ms data k of
        Inl e \<Rightarrow> Inl e
      | Inr st \<Rightarrow> sim_step cfg strat date_ms data st k)"
  by (simp add: sim_after_def sim_loop_append split: sum.splits)

lemma sim_after_0: "sim_after cfg strat date_ms data 0 = Inr (sim_init cfg)"
  by (simp add: sim_after_def)

text \<open>The roundings on the way of the example run.\<close>

lemma rnd_run1: "rnd (1 / 1000) = 1152921504606847 / 1152921504606846976"
  by (subst rnd_eval [where e = "- 10"]) (simp_all add: emin_def round_even_def)

lemma rnd_run2: "rnd (57 / 40000) = 1642913144064757 / 1152921504606846976"
  by (subst rnd_eval [where e = "- 10"]) (simp_all add: emin_def round_even_def)

lemma rnd_run3: "rnd (3 / 1000) = 3458764513820541 / 1152921504606846976"
  by (subst rnd_eval [where e = "- 9"]) (simp_all add: emin_def round_even_def)

lemma rnd_run4: "rnd (7 / 100) = 1261007895663739 / 18014398509481984"
  by (subst rnd_eval [where e = "- 4"]) (simp_all add: emin_def round_even_def)

lemma rnd_run5: "rnd (3 / 20) = 5404319552844595 / 36028797018963968"
  by (subst rnd_eval [where e = "- 3"]) (simp_all add: emin_def round_even_def)

lemma rnd_run6: "rnd (3 / 100) = 1080863910568919 / 36028797018963968"
  by (subst rnd_eval [where e = "- 6"]) (simp_all add: emin_def round_even_def)

lemma rnd_run7: "rnd (1 / 10) = 3602879701896397 / 36028797018963968"
  by (subst rnd_eval [where e = "- 4"]) (simp_all add: emin_def round_even_def)

lemma rnd_run8: "rnd (199 / 10) = 2800676018271027 / 140737488355328"
  by (subst rnd_eval [where e = "4"]) (simp_all add: emin_def round_even_def)

lemma rnd_run9: "rnd (102 / 5) = 2871044762448691 / 140737488355328"
  by (subst rnd_eval [where e = "4"]) (simp_all add: emin_def round_even_def)

lemma rnd_run10: "rnd (1154074426111453823 / 1152921504606846976) = 2254051613498933 / 2251799813685248"
  by (subst rnd_eval [where e = "0"]) (simp_all add: emin_def round_even_def)

lemma rnd_run11: "rnd (6312868297871575568340569314191 / 316912650057057350374175801344) = 5606953388578595 / 281474976710656"
  by (subst rnd_eval [where e = "4"]) (simp_all add: emin_def round_even_def)

lemma rnd_run12: "rnd (700869173572324375 / 35184372088832) = 684442552316723 / 34359738368"
  by (subst rnd_eval [where e = "14"]) (simp_all add: emin_def round_even_def)

lemma rnd_run13: "rnd (34359738368000000 / 684442552316723) = 55196643947811 / 1099511627776"
  by (subst rnd_eval [where e = "5"]) (simp_all add: emin_def round_even_def)

lemma rnd_run14: "rnd (17521729339308109375 / 17592186044416) = 4277765951979519 / 4294967296"
  by (subst rnd_eval [where e = "19"]) (simp_all add: emin_def round_even_def)

lemma rnd_run15: "rnd (7027997909739839873650073711883 / 4951760157141521099596496896) = 3121058038564257 / 2199023255552"
  by (subst rnd_eval [where e = "10"]) (simp_all add: emin_def round_even_def)

lemma rnd_run16: "rnd (2193337225452077985 / 2199023255552) = 2141930884230545 / 2147483648"
  by (subst rnd_eval [where e = "19"]) (simp_all add: emin_def round_even_def)

lemma rnd_run17: "rnd (5552763769455 / 2147483648) = 5552763769455 / 2147483648"
  by (subst rnd_eval [where e = "11"]) (simp_all add: emin_def round_even_def)

lemma rnd_run18: "rnd (140173834714464875 / 70368744177664) = 8760864669654055 / 4398046511104"
  by (subst rnd_eval [where e = "10"]) (simp_all add: emin_def round_even_def)

lemma rnd_run19: "rnd (498 / 25) = 1401745384019067 / 70368744177664"
  by (subst rnd_eval [where e = "4"]) (simp_all add: emin_def round_even_def)

lemma rnd_run20: "rnd (8752112557096959375 / 8796093022208) = 8546984919039999 / 8589934592"
  by (subst rnd_eval [where e = "19"]) (simp_all add: emin_def round_even_def)

lemma rnd_run21: "rnd (8569195974117819 / 8589934592) = 8569195974117819 / 8589934592"
  by (subst rnd_eval [where e = "19"]) (simp_all add: emin_def round_even_def)

lemma rnd_run22: "rnd (67553994410557 / 140737488355328) = 67553994410557 / 140737488355328"
  by (subst rnd_eval [where e = "- 2"]) (simp_all add: emin_def round_even_def)

lemma rnd_run23: "rnd (67553994410557 / 2803490768038134) = 1736327567178975 / 72057594037927936"
  by (subst rnd_eval [where e = "- 6"]) (simp_all add: emin_def round_even_def)

lemma rnd_run24: "rnd (8972014882652159375 / 8796093022208) = 8761733283839999 / 8589934592"
  by (subst rnd_eval [where e = "19"]) (simp_all add: emin_def round_even_def)

lemma rnd_run25: "rnd (8783944338917819 / 8589934592) = 8783944338917819 / 8589934592"
  by (subst rnd_eval [where e = "19"]) (simp_all add: emin_def round_even_def)

lemma rnd_run26: "rnd (1151278591462782219 / 1152921504606846976) = 4497181997901493 / 4503599627370496"
  by (subst rnd_eval [where e = "- 1"]) (simp_all add: emin_def round_even_def)

lemma rnd_run27: "rnd (1147819826948961667 / 1152921504606846976) = 8967342398038763 / 9007199254740992"
  by (subst rnd_eval [where e = "- 1"]) (simp_all add: emin_def round_even_def)

lemma rnd_run28: "rnd (78569462356485822348259091881237 / 77371252455336267181195264) = 8722962614059007 / 8589934592"
  by (subst rnd_eval [where e = "19"]) (simp_all add: emin_def round_even_def)

lemma rnd_run29: "rnd (155241592913919 / 8589934592) = 155241592913919 / 8589934592"
  by (subst rnd_eval [where e = "14"]) (simp_all add: emin_def round_even_def)

lemma rnd_run30: "rnd (155241592913919 / 8567721021145088) = 5222548984676149 / 288230376151711744"
  by (subst rnd_eval [where e = "- 6"]) (simp_all add: emin_def round_even_def)

lemma rnd_run31: "rnd (3264093115422593125 / 18014398509481984) = 796897733257469 / 4398046511104"
  by (subst rnd_eval [where e = "7"]) (simp_all add: emin_def round_even_def)

lemma rnd_run32: "rnd (181 / 100) = 4075757662770299 / 2251799813685248"
  by (subst rnd_eval [where e = "0"]) (simp_all add: emin_def round_even_def)

lemmas example_roundings =
  rnd_run1 rnd_run2 rnd_run3 rnd_run4 rnd_run5 rnd_run6 rnd_run7 rnd_run8
  rnd_run9 rnd_run10 rnd_run11 rnd_run12 rnd_run13 rnd_run14 rnd_run15 rnd_run16
  rnd_run17 rnd_run18 rnd_run19 rnd_run20 rnd_run21 rnd_run22 rnd_run23 rnd_run24
  rnd_run25 rnd_run26 rnd_run27 rnd_run28 rnd_run29 rnd_run30 rnd_run31 rnd_run32

lemma example_step0:
  "sim_step DEFAULT_CONFIG example_strategy example_date_ms example_bars (sim_init DEFAULT_CONFIG) 0
     = Inr \<lparr> capital = Fin (5552763769455 / 2147483648), position = Some example_position,
             highestSinceEntry = Fin (2800676018271027 / 140737488355328), trades = [],
             equityCurve = [Fin 997586] \<rparr>"
  by (simp add: sim_step_def sim_init_def DEFAULT_CONFIG_def example_strategy_def example_bars_def
        example_position_def BaseStrategy_def Let_def record_equity_def truthy_num_def
        truthy_str_def round2d_def dlit_def double_eval rnd_minus example_roundings)

lemma example_step1:
  "sim_step DEFAULT_CONFIG example_strategy example_date_ms example_bars
     \<lparr> capital = Fin (5552763769455 / 2147483648), position = Some example_position,
       highestSinceEntry = Fin (2800676018271027 / 140737488355328), trades = [],
       equityCurve = [Fin 997586] \<rparr> 1
     = Inr \<lparr> capital = Fin (5552763769455 / 2147483648), position = Some example_position,
             highestSinceEntry = Fin (2871044762448691 / 140737488355328), trades = [],
             equityCurve = [Fin 997586, Fin 1022586] \<rparr>"
  by (simp add: sim_step_def DEFAULT_CONFIG_def example_strategy_def example_bars_def
        example_position_def BaseStrategy_def shouldExit_def Let_def record_equity_def
        truthy_num_def Math_max_def dlit_def double_eval rnd_minus example_roundings)

lemma example_run:
  "sim_after DEFAULT_CONFIG example_strategy example_date_ms example_bars 2
     = Inr \<lparr> capital = Fin (5552763769455 / 2147483648), position = Some example_position,
             highestSinceEntry = Fin (2871044762448691 / 140737488355328), trades = [],
             equityCurve = [Fin 997586, Fin 1022586] \<rparr>"
proof -
  have "sim_after DEFAULT_CONFIG example_strategy example_date_ms example_bars (Suc (Suc 0))
     = Inr \<lparr> capital = Fin (5552763769455 / 2147483648), position = Some example_position,
             highestSinceEntry = Fin (2871044762448691 / 140737488355328), trades = [],
             equityCurve = [Fin 997586, Fin 1022586] \<rparr>"
    using example_step0 example_step1 by (simp add: sim_after_Suc sim_after_0)
  then show ?thesis by (simp add: numeral_2_eq_2)
qed

text \<open>
  C3. Over a series that is not empty, when a position is still open after the last bar,
  \<open>_simulate\<close> returns the ledger of the loop with one more trade appended: the open
  position closed on the last bar's date at the last bar's close itself (no slippage), with
  the reason of the forced close at the end of the period, its profit the proceeds after
  commission and tax less the cost, as the doubles compute it and rounded to an integer.
  The trade has an exit date, so the performance report counts it among the closed trades
  (for a bar with a date).
\<close>

theorem simulate_forced_close:
  assumes "data \<noteq> []"
    and "sim_after cfg strat date_ms data (length data) = Inr st"
    and "position st = Some p"
  shows "\<exists>t. simulate cfg strat date_ms data = Inr (trades st @ [t], equityCurve st)
           \<and> exitReason t = ForcedClose
           \<and> exitPrice t = close (last data)
           \<and> exitDate t = Some (date (last data))
           \<and> pnl t = Math_round
                        (fsub (fmul (fmul (close (last data)) (shares p))
                                    (fsub (fsub (Fin 1) (commission cfg)) (tax cfg)))
                              (cost p))
           \<and> pos_symbol t = pos_symbol p \<and> entryDate t = entryDate p
           \<and> entryPrice t = entryPrice p \<and> shares t = shares p \<and> cost t = cost p
           \<and> truthy_str (exitDate t) = (date (last data) \<noteq> [])"
  using assms
  by (simp add: simulate_def force_close_def close_trade_def Let_def truthy_str_def)

theorem simulate_forced_close_witness:
  "\<exists>t. simulate DEFAULT_CONFIG example_strategy example_date_ms example_bars
          = Inr ([t], [Fin 997586, Fin 1022586])
       \<and> exitReason t = ForcedClose \<and> exitPrice t = dlit 20.40 \<and> pnl t = Fin 18072
       \<and> exitDate t = Some ''2025-01-03''"
proof -
  have run: "sim_after DEFAULT_CONFIG example_strategy example_date_ms example_bars
               (length example_bars)
     = Inr \<lparr> capital = Fin (5552763769455 / 2147483648), position = Some example_position,
             highestSinceEntry = Fin (2871044762448691 / 140737488355328), trades = [],
             equityCurve = [Fin 997586, Fin 1022586] \<rparr>"
  proof -
    have "length example_bars = 2" by (simp add: example_bars_def)
    then show ?thesis using example_run by simp
  qed
  have ne: "example_bars \<noteq> []" by (simp add: example_bars_def)
  from simulate_forced_close [OF ne run, of example_position]
  show ?thesis
    by (auto simp: example_bars_def example_position_def DEFAULT_CONFIG_def dlit_def
          double_eval rnd_minus example_roundings)
qed

lemma to_double_ge_one:
  assumes "1 \<le> c"
  shows "to_double c = PInf \<or> (\<exists>r. to_double c = Fin r \<and> 1 \<le> r)"
proof -
  have r: "1 \<le> rnd c" using rnd_mono [OF assms] by (simp add: rnd_one)
  have "(0::real) < 2 powi emax" by simp
  then have "\<not> rnd c \<le> - (2 powi emax)" using r by linarith
  then show ?thesis using r by (auto simp: to_double_def Let_def)
qed

lemma invest_by_zero:
  assumes "1 \<le> c"
  shows "fdiv (fmul (Fin c) (Fin 1)) (Fin 0) = PInf"
proof -
  have c0: "c \<noteq> 0" using assms by simp
  have m: "fmul (Fin c) (Fin 1) = to_double c" using c0 by (simp add: fmul_def)
  from to_double_ge_one [OF assms] show ?thesis
  proof
    assume "to_double c = PInf"
    then show ?thesis using m by (simp add: fdiv_def signed_inf_def)
  next
    assume "\<exists>r. to_double c = Fin r \<and> 1 \<le> r"
    then obtain r where "to_double c = Fin r" "1 \<le> r" by blast
    then show ?thesis using m by (simp add: fdiv_def signed_inf_def)
  qed
qed

lemma zero_price: "fmul (Fin 0) (fadd (Fin 1) (slippage DEFAULT_CONFIG)) = Fin 0"
  by (simp add: DEFAULT_CONFIG_def dlit_def double_eval example_roundings)

text \<open>
  C10. With the default settings, from the flat state with a capital of at least 1, on a
  bar whose close is 0 and on which the entry rule fires, \<open>_simulate\<close> opens a position:
  the number of shares is \<open>Infinity\<close> and the cost \<open>NaN\<close>, the test \<open>cost > capital\<close> is
  false, and the capital becomes \<open>NaN\<close>. The position is opened although its cost with
  the buy commission is not at most the capital.
\<close>

theorem simulate_zero_close_opens_position:
  assumes "position st = None" and "capital st = Fin c" and "1 \<le> c"
    and "shouldEntry strat (rev data) (length data - 1 - k) = Inr True"
    and "close (data ! k) = Fin 0"
  shows "\<exists>st' p. sim_step DEFAULT_CONFIG strat date_ms data st k = Inr st'
           \<and> position st' = Some p \<and> shares p = PInf \<and> cost p = NaN
           \<and> capital st' = NaN
           \<and> \<not> fle (let price = fmul (close (data ! k)) (fadd (Fin 1) (slippage DEFAULT_CONFIG))
                     in fadd (fmul price (shares p))
                             (fmul (fmul price (shares p)) (commission DEFAULT_CONFIG)))
                    (capital st)"
proof -
  have ps: "positionSize DEFAULT_CONFIG = Fin 1" by (simp add: DEFAULT_CONFIG_def)
  have z: "fmul (Fin 0) (Fin 1000) = Fin 0" by (simp add: fmul_def signed_zero_def)
  have inf: "fmul PInf (Fin 1000) = PInf" by (simp add: fmul_def signed_inf_def)
  have nan: "fmul (Fin 0) PInf = NaN" by (simp add: fmul_def)
  have sh: "\<not> fle PInf (Fin 0)" by (simp add: fle_def)
  show ?thesis
    using assms sh
    by (simp add: sim_step_def Let_def zero_price ps z invest_by_zero inf nan record_equity_def
          nan_simps)
qed

lemma zero_close_entry:
  "shouldEntry zero_close_strategy (rev zero_close_bars) 0 = Inr True"
  by (simp add: zero_close_strategy_def zero_close_bars_def MACrossStrategy_def
        or_default_nat_def MACross_shouldEntry_def bind_err_def sma_def sum_loop.simps
        bar_at_def double_eval)

lemma zero_close_no_entry:
  "0 < index \<Longrightarrow> shouldEntry zero_close_strategy (rev zero_close_bars) index = Inr False"
  by (simp add: zero_close_strategy_def zero_close_bars_def MACrossStrategy_def
        or_default_nat_def MACross_shouldEntry_def)

lemma zero_close_flat_step:
  assumes "k < 4"
  shows "sim_step DEFAULT_CONFIG zero_close_strategy date_ms zero_close_bars (flat_state curve) k
           = Inr (flat_state (curve @ [Fin 1000000]))"
proof -
  have len: "length zero_close_bars = 5" by (simp add: zero_close_bars_def)
  have "0 < length zero_close_bars - 1 - k" using assms len by simp
  then have "shouldEntry zero_close_strategy (rev zero_close_bars) (length zero_close_bars - 1 - k)
               = Inr False"
    by (rule zero_close_no_entry)
  then show ?thesis
    by (simp add: sim_step_def flat_state_def record_equity_def Let_def double_eval)
qed

lemma zero_close_run:
  "sim_after DEFAULT_CONFIG zero_close_strategy date_ms zero_close_bars 4
     = Inr (flat_state [Fin 1000000, Fin 1000000, Fin 1000000, Fin 1000000])"
proof -
  have init: "sim_init DEFAULT_CONFIG = flat_state []"
    by (simp add: sim_init_def flat_state_def DEFAULT_CONFIG_def)
  have "sim_after DEFAULT_CONFIG zero_close_strategy date_ms zero_close_bars
          (Suc (Suc (Suc (Suc 0))))
     = Inr (flat_state [Fin 1000000, Fin 1000000, Fin 1000000, Fin 1000000])"
    by (simp add: sim_after_Suc sim_after_0 init zero_close_flat_step)
  moreover have "(4::nat) = Suc (Suc (Suc (Suc 0)))" by simp
  ultimately show ?thesis by (simp only:)
qed

theorem simulate_zero_close_opens_position_witness:
  "sim_after DEFAULT_CONFIG zero_close_strategy example_date_ms zero_close_bars 4
     = Inr (flat_state [Fin 1000000, Fin 1000000, Fin 1000000, Fin 1000000])
   \<and> (\<exists>st' p. sim_step DEFAULT_CONFIG zero_close_strategy example_date_ms zero_close_bars
                 (flat_state [Fin 1000000, Fin 1000000, Fin 1000000, Fin 1000000]) 4 = Inr st'
           \<and> position st' = Some p \<and> shares p = PInf \<and> cost p = NaN
           \<and> capital st' = NaN)"
proof -
  let ?st = "flat_state [Fin 1000000, Fin 1000000, Fin 1000000, Fin 1000000]"
  have len: "length zero_close_bars - 1 - 4 = 0" by (simp add: zero_close_bars_def)
  have c: "close (zero_close_bars ! 4) = Fin 0" by (simp add: zero_close_bars_def)
  have p: "position ?st = None" "capital ?st = Fin 1000000" by (simp_all add: flat_state_def)
  have e: "shouldEntry zero_close_strategy (rev zero_close_bars) (length zero_close_bars - 1 - 4)
             = Inr True"
    using zero_close_entry len by simp
  have "\<exists>st' p. sim_step DEFAULT_CONFIG zero_close_strategy example_date_ms zero_close_bars
                 ?st 4 = Inr st'
           \<and> position st' = Some p \<and> shares p = PInf \<and> cost p = NaN
           \<and> capital st' = NaN"
    using simulate_zero_close_opens_position [OF p(1) p(2) _ e c, of example_date_ms] by auto
  then show ?thesis using zero_close_run by blast
qed

section \<open>Verified properties: performance report\<close>










text \<open>
  The percentage is that of the largest absolute drop, which need not be the largest
  percentage drop: here the drop from 100 to 50 is 50 per cent, the largest drop is from
  1000 to 900, and 10 per cent is returned.
\<close>

lemma calculateMaxDrawdown_pct_follows_absolute:
  "calculateMaxDrawdown [100, 50, 1000, 900] = (100, 10)"
  by (simp add: calculateMaxDrawdown_def)


section \<open>Verified properties: fundamental scorer\<close>

lemmas fundamental_defs = scoreFundamental_def revenue_subscore_def mom_subscore_def
  eps_subscore_def pe_subscore_def has_eps_def eps_growth_def js_positive_def

lemma scoreFundamental_absent: "fundamental_score (scoreFundamental None) = 50"
  by (simp add: scoreFundamental_def)

lemma subscores_undefined_neutral:
  "revenue_subscore Undefined = 50" "mom_subscore Undefined = 50"
  "eps_subscore Undefined p = 50" "eps_subscore e Undefined = 50" "pe_subscore Undefined = 50"
  by (simp_all add: fundamental_defs)

lemma subscores_null_siblings:
  "revenue_subscore Null = 50" "mom_subscore Null = 50" "pe_subscore Null = 50"
  "eps_subscore e Null = 50"
  by (simp_all add: fundamental_defs)

text \<open>
  C8. With no snapshot the score is 50, and a missing (\<open>undefined\<close>) field gives its
  sub-score 50 (the lemmas above). The \<open>null\<close> of an empty database column is treated
  as missing for the revenue growths and the P/E, but not for \<open>eps\<close>: with \<open>eps\<close>
  \<open>null\<close> and a positive prior-year EPS the EPS sub-score is 15 (a growth of -100 per
  cent), not the neutral 50, and the snapshot scores 40.
\<close>

theorem scoreFundamental_null_eps:
  "scoreFundamental (Some \<lparr> revenueGrowthMoM = Null, revenueGrowthYoY = Null, eps = Null,
                             epsPrevYear = Num 5, peRatio = Null \<rparr>)
     = \<lparr> fundamental_score = 40,
         fundamental_details = Some \<lparr> revenueScore = 50, momScore = 50, epsScore = 15,
                                       epsGrowth = Some (- 100), peScore = 50 \<rparr> \<rparr>"
  by (simp add: fundamental_defs js_round_def round2_def)

section \<open>Verified properties: filter stage\<close>

lemma applyFilters_loop_filter:
  "applyFilters_loop cfg db d symbols result =
     result @ filter (\<lambda>s. length s = 4 \<and>
        (case db s d of
           None \<Rightarrow> False
         | Some rows \<Rightarrow> 5 \<le> length rows
             \<and> sum_list (map row_volume (take 5 rows)) / 5 \<ge> minAvgVolume cfg
             \<and> row_close (hd rows) \<ge> minPrice cfg)) symbols"
proof (induction symbols arbitrary: result)
  case Nil
  then show ?case by simp
next
  case (Cons s rest)
  show ?case
  proof (cases "db s d")
    case None
    then show ?thesis using Cons by simp
  next
    case (Some rows)
    show ?thesis
    proof (cases "5 \<le> length rows")
      case True
      then have "rows \<noteq> []" by auto
      with True have "length (take 5 rows) = 5" "take 5 rows ! 0 = hd rows"
        by (simp_all add: hd_conv_nth)
      then show ?thesis using Some True Cons by (simp add: Let_def)
    next
      case False
      then show ?thesis using Some Cons by (simp add: Let_def)
    qed
  qed
qed

text \<open>
  C7 (as the code has it). \<open>_applyFilters\<close> keeps, in their order, exactly the symbols
  whose code is 4 characters long (the characters are not tested), whose query succeeds
  and gives at least 5 rows, whose average volume over the 5 newest rows is at least
  \<open>minAvgVolume\<close> and whose newest close is at least \<open>minPrice\<close>; anything else is
  skipped without an error. The defaults are 1000 and 10.
\<close>

theorem applyFilters_survivors:
  "applyFilters cfg db symbols d =
     filter (\<lambda>s. length s = 4 \<and>
        (case db s d of
           None \<Rightarrow> False
         | Some rows \<Rightarrow> 5 \<le> length rows
             \<and> sum_list (map row_volume (take 5 rows)) / 5 \<ge> minAvgVolume cfg
             \<and> row_close (hd rows) \<ge> minPrice cfg)) symbols
   \<and> minAvgVolume (screener_config_of \<lparr> set_minAvgVolume = None, set_minPrice = None, set_topN = None \<rparr>) = 1000
   \<and> minPrice (screener_config_of \<lparr> set_minAvgVolume = None, set_minPrice = None, set_topN = None \<rparr>) = 10"
  by (simp add: applyFilters_def applyFilters_loop_filter screener_config_of_def FILTER_DEFAULTS_def)

text \<open>
  C7 as the spec states it fails: a code of four letters is kept, though it is not in the
  4-digit format.
\<close>

theorem applyFilters_four_letters_counterexample:
  "applyFilters FILTER_DEFAULTS
     (\<lambda>s d. Some (replicate 5 \<lparr> row_close = 50, row_volume = 2000 \<rparr>))
     [''ABCD''] ''2026-02-08'' = [''ABCD'']
   \<and> \<not> four_digit_code ''ABCD''"
  by (simp add: applyFilters_def FILTER_DEFAULTS_def four_digit_code_def eval_nat_numeral)


section \<open>Verified properties: VAO indicator\<close>
















section \<open>Verified properties: performance figures\<close>
















end
